theory Spec2Isabelle
  imports Main
begin

section \<open>The script engine of the game server (CScriptEngine.h)\<close>

text \<open>
  A shallow embedding of \<^verbatim>\<open>src/server/include/CScriptEngine.h\<close>. The class
  \<^verbatim>\<open>CScriptEngine\<close> becomes a record, each inline member function a function from the
  engine state to the result and the new engine state. Pointers to script functions are
  \<open>nat option\<close>: \<open>None\<close> is \<^verbatim>\<open>nullptr\<close>, \<open>Some a\<close> the object at address \<open>a\<close>. Pointers
  to entities are only stored and compared, never dereferenced, and are plain addresses.
\<close>

subsection \<open>Data\<close>

type_synonym IScriptFunction_ptr = "nat option"
type_synonym TNPC_ptr = nat
type_synonym TWeapon_ptr = nat
type_synonym time_point = int

text \<open>
  The script environment behind \<^verbatim>\<open>IScriptEnv *_env\<close>. Its class is not part of the header;
  the fields are the ones the engine reads or the specification names: the last
  \<^verbatim>\<open>ScriptRunError\<close>, the reference count of every compiled function object, the next
  free address for a compiled function and the sources the compiler was run on, in order.
\<close>

record IScriptEnv =
  scriptError :: string
  references :: "nat \<Rightarrow> nat"
  nextFunction :: nat
  compileLog :: "string list"

record CScriptEngine =
  env :: IScriptEnv
  bootstrapFunction :: IScriptFunction_ptr
  runner :: nat
  scriptIsRunning :: bool
  scriptWatcherRunning :: bool
  scriptStartTime :: time_point
  cachedScripts :: "string \<rightharpoonup> IScriptFunction_ptr"
  callbacks :: "string \<rightharpoonup> IScriptFunction_ptr"
  updateNpcs :: "TNPC_ptr set"
  updateNpcsTimer :: "TNPC_ptr set"
  updateWeapons :: "TWeapon_ptr set"
  deletedFunctions :: "IScriptFunction_ptr set"

text \<open>\<^verbatim>\<open>ScriptAction(funcIt->second, args, action)\<close>: the function, the arguments, the name.\<close>

record 'a ScriptAction =
  sa_function :: IScriptFunction_ptr
  sa_args :: "'a list"
  sa_action :: string

datatype error = AssertionFailed

text \<open>The template parameter of \<^verbatim>\<open>WrapScript<T>\<close>; \<open>TOther\<close> is the primary template.\<close>

datatype script_kind = TNPC | TPlayer | TWeapon | TOther

subsection \<open>The execution bracket\<close>

text \<open>
  \<^verbatim>\<open>StartScriptExecution\<close> writes \<^verbatim>\<open>_scriptStartTime\<close> inside the scope of the lock guard and
  stores \<^verbatim>\<open>_scriptIsRunning\<close> after that scope has closed: two writes, in this order.
\<close>

definition StartScriptExecution :: "time_point \<Rightarrow> CScriptEngine \<Rightarrow> CScriptEngine" where
  "StartScriptExecution startTime s =
     (let s1 = s\<lparr>scriptStartTime := startTime\<rparr>
      in s1\<lparr>scriptIsRunning := True\<rparr>)"

definition StopScriptExecution :: "CScriptEngine \<Rightarrow> bool \<times> CScriptEngine" where
  "StopScriptExecution s =
     (let res = scriptIsRunning s
      in (res, if res then s\<lparr>scriptIsRunning := False\<rparr> else s))"

subsection \<open>Callbacks\<close>

definition getCallBack :: "string \<Rightarrow> CScriptEngine \<Rightarrow> IScriptFunction_ptr" where
  "getCallBack callback s =
     (case callbacks s callback of
        Some f \<Rightarrow> f
      | None \<Rightarrow> None)"

definition removeCallBack :: "string \<Rightarrow> CScriptEngine \<Rightarrow> CScriptEngine" where
  "removeCallBack callback s =
     (case callbacks s callback of
        Some f \<Rightarrow>
          (let s1 = s\<lparr>deletedFunctions := insert f (deletedFunctions s)\<rparr>
           in s1\<lparr>callbacks := (callbacks s1)(callback := None)\<rparr>)
      | None \<Rightarrow> s)"

definition setCallBack :: "string \<Rightarrow> IScriptFunction_ptr \<Rightarrow> CScriptEngine \<Rightarrow> CScriptEngine" where
  "setCallBack callback cbFunc s =
     (let s1 = removeCallBack callback s
      in s1\<lparr>callbacks := (callbacks s1)(callback \<mapsto> cbFunc)\<rparr>)"

subsection \<open>Periodic registries\<close>

definition RegisterNpcTimer :: "TNPC_ptr \<Rightarrow> CScriptEngine \<Rightarrow> CScriptEngine" where
  "RegisterNpcTimer npc s = s\<lparr>updateNpcsTimer := insert npc (updateNpcsTimer s)\<rparr>"

definition RegisterNpcUpdate :: "TNPC_ptr \<Rightarrow> CScriptEngine \<Rightarrow> CScriptEngine" where
  "RegisterNpcUpdate npc s = s\<lparr>updateNpcs := insert npc (updateNpcs s)\<rparr>"

definition RegisterWeaponUpdate :: "TWeapon_ptr \<Rightarrow> CScriptEngine \<Rightarrow> CScriptEngine" where
  "RegisterWeaponUpdate weapon s = s\<lparr>updateWeapons := insert weapon (updateWeapons s)\<rparr>"

definition UnregisterWeaponUpdate :: "TWeapon_ptr \<Rightarrow> CScriptEngine \<Rightarrow> CScriptEngine" where
  "UnregisterWeaponUpdate weapon s = s\<lparr>updateWeapons := updateWeapons s - {weapon}\<rparr>"

definition UnregisterNpcUpdate :: "TNPC_ptr \<Rightarrow> CScriptEngine \<Rightarrow> CScriptEngine" where
  "UnregisterNpcUpdate npc s = s\<lparr>updateNpcs := updateNpcs s - {npc}\<rparr>"

definition UnregisterNpcTimer :: "TNPC_ptr \<Rightarrow> CScriptEngine \<Rightarrow> CScriptEngine" where
  "UnregisterNpcTimer npc s = s\<lparr>updateNpcsTimer := updateNpcsTimer s - {npc}\<rparr>"

subsection \<open>Actions\<close>

text \<open>
  \<^verbatim>\<open>CreateAction\<close>: the argument pack is the list \<open>An\<close>, \<^verbatim>\<open>Argc\<close> its length. The
  \<^verbatim>\<open>assert(Argc > 0)\<close> comes first and is a branch of its own. The arguments object that
  \<^verbatim>\<open>ScriptFactory::CreateArguments\<close> builds is the list itself. No member of the engine is
  written on any path.
\<close>

definition CreateAction ::
  "string \<Rightarrow> 'a list \<Rightarrow> CScriptEngine \<Rightarrow> error + ('a ScriptAction option \<times> CScriptEngine)" where
  "CreateAction action An s =
     (let Argc = length An
      in if \<not> Argc > 0 then Inl AssertionFailed
         else (case callbacks s action of
                 None \<Rightarrow> Inr (None, s)
               | Some f \<Rightarrow>
                   Inr (Some \<lparr>sa_function = f, sa_args = An, sa_action = action\<rparr>, s)))"

subsection \<open>Wrapping of script source\<close>

definition prefixString_TNPC :: string where
  "prefixString_TNPC =
     ''(function(npc) {'' @
     ''var onCreated, onTimeout, onNpcWarped, onPlayerChats, onPlayerEnters, onPlayerLeaves, onPlayerTouchsMe, onPlayerLogin, onPlayerLogout;'' @
     ''const self = npc;'' @
     ''if (onCreated) self.onCreated = onCreated;'' @
     ''if (onTimeout) self.onTimeout = onTimeout;'' @
     ''if (onNpcWarped) self.onNpcWarped = onNpcWarped;'' @
     ''if (onPlayerChats) self.onPlayerChats = onPlayerChats;'' @
     ''if (onPlayerEnters) self.onPlayerEnters = onPlayerEnters;'' @
     ''if (onPlayerLeaves) self.onPlayerLeaves = onPlayerLeaves;'' @
     ''if (onPlayerTouchsMe) self.onPlayerTouchsMe = onPlayerTouchsMe;'' @
     ''if (onPlayerLogin) self.onPlayerLogin = onPlayerLogin;'' @
     ''if (onPlayerLogout) self.onPlayerLogout = onPlayerLogout;'' @
     ''\<newline>''"

definition prefixString_TPlayer :: string where
  "prefixString_TPlayer =
     ''(function(player) {'' @
     ''const self = player;\<newline>''"

definition prefixString_TWeapon :: string where
  "prefixString_TWeapon =
     ''(function(weapon) {'' @
     ''var onCreated, onActionServerSide;'' @
     ''const self = weapon;'' @
     ''self.onCreated = onCreated;'' @
     ''self.onActionServerSide = onActionServerSide;\<newline>''"

fun WrapScript :: "script_kind \<Rightarrow> string \<Rightarrow> string" where
  "WrapScript TOther code = code"
| "WrapScript TNPC code = prefixString_TNPC @ code @ ''\<newline>});''"
| "WrapScript TPlayer code = prefixString_TPlayer @ code @ ''\<newline>});''"
| "WrapScript TWeapon code = prefixString_TWeapon @ code @ ''\<newline>});''"

subsection \<open>The wrapping rule as the specification words it\<close>

text \<open>
  The specification describes the text around the user's code by its parts: the opening of
  a function of the entity, the declaration of the recognised handler names as local
  bindings, the alias \<open>self\<close>, one assignment for each handler, and the closing of the
  function. These definitions build that text from a parameter name and a list of handler
  names, to be compared with the literals of the source.
\<close>

fun join_names :: "string list \<Rightarrow> string" where
  "join_names [] = []"
| "join_names [h] = h"
| "join_names (h # g # hs) = h @ '', '' @ join_names (g # hs)"

definition open_function :: "string \<Rightarrow> string" where
  "open_function param = ''(function('' @ param @ '') {''"

definition declare_handlers :: "string list \<Rightarrow> string" where
  "declare_handlers hs = ''var '' @ join_names hs @ '';''"

definition bind_self :: "string \<Rightarrow> string" where
  "bind_self param = ''const self = '' @ param @ '';''"

definition assign_if_defined :: "string \<Rightarrow> string" where
  "assign_if_defined h = ''if ('' @ h @ '') self.'' @ h @ '' = '' @ h @ '';''"

definition assign_always :: "string \<Rightarrow> string" where
  "assign_always h = ''self.'' @ h @ '' = '' @ h @ '';''"

definition close_function :: string where
  "close_function = ''\<newline>});''"

definition conditional_prologue :: "string \<Rightarrow> string list \<Rightarrow> string" where
  "conditional_prologue param hs =
     open_function param @ declare_handlers hs @ bind_self param @
     concat (map assign_if_defined hs) @ ''\<newline>''"

definition unconditional_prologue :: "string \<Rightarrow> string list \<Rightarrow> string" where
  "unconditional_prologue param hs =
     open_function param @ declare_handlers hs @ bind_self param @
     concat (map assign_always hs) @ ''\<newline>''"

text \<open>The names each literal of the source declares after \<^verbatim>\<open>var\<close>, and its parameter.\<close>

fun handler_names :: "script_kind \<Rightarrow> string list" where
  "handler_names TNPC =
     [''onCreated'', ''onTimeout'', ''onNpcWarped'', ''onPlayerChats'', ''onPlayerEnters'',
      ''onPlayerLeaves'', ''onPlayerTouchsMe'', ''onPlayerLogin'', ''onPlayerLogout'']"
| "handler_names TWeapon = [''onCreated'', ''onActionServerSide'']"
| "handler_names TPlayer = []"
| "handler_names TOther = []"

fun entity_param :: "script_kind \<Rightarrow> string" where
  "entity_param TNPC = ''npc''"
| "entity_param TPlayer = ''player''"
| "entity_param TWeapon = ''weapon''"
| "entity_param TOther = []"

subsection \<open>Compilation and the cache\<close>

text \<open>
  Modelled from the spec: the bodies of \<^verbatim>\<open>CScriptEngine::CompileCache\<close> and of the script
  environment's compiler are not in the header, which only declares
  \<^verbatim>\<open>IScriptFunction * CompileCache(const std::string& code, bool referenceCount = true)\<close>.
  The environment's \<open>compile(source)\<close> either fails, leaving its error as the last
  ScriptRunError, or produces a new compiled unit, singly owned. Which sources are
  malformed is the parameter \<open>parse\<close> (\<open>Some msg\<close> for a malformed source). Every run of
  the compiler is recorded in \<open>compileLog\<close>.
\<close>

definition Compile ::
  "(string \<Rightarrow> string option) \<Rightarrow> string \<Rightarrow> IScriptEnv \<Rightarrow> IScriptFunction_ptr \<times> IScriptEnv" where
  "Compile parse source e =
     (let e1 = e\<lparr>compileLog := compileLog e @ [source]\<rparr>
      in case parse source of
           Some msg \<Rightarrow> (None, e1\<lparr>scriptError := msg\<rparr>)
         | None \<Rightarrow>
             (Some (nextFunction e1),
              e1\<lparr>references := (references e1)(nextFunction e1 := 1),
                 nextFunction := Suc (nextFunction e1)\<rparr>))"

definition increaseReference :: "IScriptFunction_ptr \<Rightarrow> IScriptEnv \<Rightarrow> IScriptEnv" where
  "increaseReference f e =
     (case f of
        None \<Rightarrow> e
      | Some a \<Rightarrow> e\<lparr>references := (references e)(a := Suc (references e a))\<rparr>)"

text \<open>
  Modelled from the spec (section 4.1): if \<open>shouldCache\<close> is true and the source has a
  cache entry, increment its reference count and return the existing unit, skipping
  compilation; otherwise hand the source to the environment; on failure return the error
  and cache nothing; on success insert into the cache with reference count 1 if
  \<open>shouldCache\<close> is true, and return an uncached unit if not. The flag is the header's
  parameter \<^verbatim>\<open>referenceCount\<close>, a failure the null pointer the declared return type allows.
\<close>

definition CompileCache ::
  "(string \<Rightarrow> string option) \<Rightarrow> string \<Rightarrow> bool \<Rightarrow> CScriptEngine
     \<Rightarrow> IScriptFunction_ptr \<times> CScriptEngine" where
  "CompileCache parse code referenceCount s =
     (case (if referenceCount then cachedScripts s code else None) of
        Some f \<Rightarrow> (f, s\<lparr>env := increaseReference f (env s)\<rparr>)
      | None \<Rightarrow>
          (case Compile parse code (env s) of
             (None, e1) \<Rightarrow> (None, s\<lparr>env := e1\<rparr>)
           | (Some a, e1) \<Rightarrow>
               (if referenceCount
                then (Some a, s\<lparr>env := e1, cachedScripts := (cachedScripts s)(code \<mapsto> Some a)\<rparr>)
                else (Some a, s\<lparr>env := e1\<rparr>))))"

subsection \<open>Bracketed invocation\<close>

text \<open>
  Modelled from the spec (section 4.5): the bodies of \<^verbatim>\<open>ExecuteNpc\<close> and \<^verbatim>\<open>ExecuteWeapon\<close>
  are not in the header, which only declares them. In the specification's words they
  resolve the handler via CallbackRegistry.get and return false if no handler is
  registered or if the call failed, true otherwise; the caller records the start time and
  sets running "immediately before invoking the script environment" and clears running
  "immediately after the call returns (success or failure)". So the handler is looked up
  with \<open>getCallBack\<close>; without one there is nothing to invoke and the answer is false; with
  one, \<open>StartScriptExecution\<close> and \<open>StopScriptExecution\<close> of the header enclose the call.
  The name of the handler looked up for the entity and the clock are parameters. So is
  \<open>invoke\<close>, the script environment running a function on an entity: it may change the
  whole engine, since a handler can call back into it.
\<close>

definition ExecuteNpc ::
  "(nat \<Rightarrow> TNPC_ptr \<Rightarrow> CScriptEngine \<Rightarrow> bool \<times> CScriptEngine) \<Rightarrow> string \<Rightarrow> time_point
     \<Rightarrow> TNPC_ptr \<Rightarrow> CScriptEngine \<Rightarrow> bool \<times> CScriptEngine" where
  "ExecuteNpc invoke handler now npc s =
     (case getCallBack handler s of
        None \<Rightarrow> (False, s)
      | Some f \<Rightarrow>
          (let s1 = StartScriptExecution now s;
               (ok, s2) = invoke f npc s1
           in (ok, snd (StopScriptExecution s2))))"

definition ExecuteWeapon ::
  "(nat \<Rightarrow> TWeapon_ptr \<Rightarrow> CScriptEngine \<Rightarrow> bool \<times> CScriptEngine) \<Rightarrow> string \<Rightarrow> time_point
     \<Rightarrow> TWeapon_ptr \<Rightarrow> CScriptEngine \<Rightarrow> bool \<times> CScriptEngine" where
  "ExecuteWeapon invoke handler now weapon s =
     (case getCallBack handler s of
        None \<Rightarrow> (False, s)
      | Some f \<Rightarrow>
          (let s1 = StartScriptExecution now s;
               (ok, s2) = invoke f weapon s1
           in (ok, snd (StopScriptExecution s2))))"

subsection \<open>The periodic pass\<close>

datatype periodic_call = TimerCall TNPC_ptr | UpdateCall TNPC_ptr | WeaponCall TWeapon_ptr

text \<open>
  Modelled from the spec (section 4.3): the body of \<^verbatim>\<open>RunScripts\<close> is not in the header.
  The pass iterates each registry and, for every member, invokes that entity's handler
  through the bracketed execution path, here the parameter \<open>exec\<close>, which receives
  \<open>timedCall\<close> as context and may change the engine. Membership is snapshotted when the
  pass begins, as the specification recommends; the unspecified iteration order is the
  order of the addresses. The pass returns the calls it made, in order, and the engine.
\<close>

fun run_calls ::
  "(periodic_call \<Rightarrow> bool \<Rightarrow> CScriptEngine \<Rightarrow> bool \<times> CScriptEngine) \<Rightarrow> bool
     \<Rightarrow> periodic_call list \<Rightarrow> CScriptEngine \<Rightarrow> periodic_call list \<times> CScriptEngine" where
  "run_calls exec timedCall [] s = ([], s)"
| "run_calls exec timedCall (c # cs) s =
     (let (ok, s1) = exec c timedCall s;
          (invoked, s2) = run_calls exec timedCall cs s1
      in (c # invoked, s2))"

definition RunScripts ::
  "(periodic_call \<Rightarrow> bool \<Rightarrow> CScriptEngine \<Rightarrow> bool \<times> CScriptEngine) \<Rightarrow> bool
     \<Rightarrow> CScriptEngine \<Rightarrow> periodic_call list \<times> CScriptEngine" where
  "RunScripts exec timedCall s =
     (let snapshot =
            map TimerCall (sorted_list_of_set (updateNpcsTimer s)) @
            map UpdateCall (sorted_list_of_set (updateNpcs s)) @
            map WeaponCall (sorted_list_of_set (updateWeapons s))
      in run_calls exec timedCall snapshot s)"

subsection \<open>A starting state for the examples\<close>

text \<open>An engine with nothing compiled, registered, pending or running.\<close>

definition emptyEnv :: IScriptEnv where
  "emptyEnv = \<lparr>scriptError = [], references = (\<lambda>a. 0), nextFunction = 0, compileLog = []\<rparr>"

definition emptyEngine :: CScriptEngine where
  "emptyEngine =
     \<lparr>env = emptyEnv, bootstrapFunction = None, runner = 0, scriptIsRunning = False,
      scriptWatcherRunning = False, scriptStartTime = 0, cachedScripts = Map.empty,
      callbacks = Map.empty, updateNpcs = {}, updateNpcsTimer = {}, updateWeapons = {},
      deletedFunctions = {}\<rparr>"


text \<open>A compiler that rejects the empty source and accepts every other one.\<close>

definition parse_nonempty :: "string \<Rightarrow> string option" where
  "parse_nonempty source = (if source = [] then Some ''SyntaxError'' else None)"

text \<open>An engine in which the entity at address 3 is a member of all three registries.\<close>

definition engine3 :: CScriptEngine where
  "engine3 = RegisterNpcTimer 3 (RegisterNpcUpdate 3 (RegisterWeaponUpdate 3 emptyEngine))"

section \<open>Properties\<close>

subsection \<open>The compile cache\<close>

text \<open>
  Claim C1. When a source has been compiled through \<open>CompileCache\<close> with caching enabled
  and that call returned a unit, a second call on the same source returns the same unit,
  the unit's reference count is one more than after the first call, and the compiler is not
  run again: its log and its next free address are as the first call left them, and so is
  the cache.
\<close>

theorem CompileCache_second_call_hits:
  assumes "CompileCache parse code True s = (Some u, s1)"
  shows "fst (CompileCache parse code True s1) = Some u
     \<and> references (env (snd (CompileCache parse code True s1))) u = Suc (references (env s1) u)
     \<and> compileLog (env (snd (CompileCache parse code True s1))) = compileLog (env s1)
     \<and> nextFunction (env (snd (CompileCache parse code True s1))) = nextFunction (env s1)
     \<and> cachedScripts (snd (CompileCache parse code True s1)) = cachedScripts s1"
proof -
  have cached: "cachedScripts s1 code = Some (Some u)"
    using assms
    by (auto simp add: CompileCache_def split: option.splits prod.splits if_splits)
  then show ?thesis
    by (simp add: CompileCache_def increaseReference_def)
qed

text \<open>
  On the empty engine, the source \<open>return 1;\<close> compiles to the unit at address 0; the
  second call returns it again with two references and one run of the compiler.
\<close>

theorem CompileCache_second_call_hits_witness:
  "CompileCache parse_nonempty ''return 1;'' True emptyEngine
     = (Some 0, snd (CompileCache parse_nonempty ''return 1;'' True emptyEngine))
   \<and> fst (CompileCache parse_nonempty ''return 1;'' True
            (snd (CompileCache parse_nonempty ''return 1;'' True emptyEngine))) = Some 0
   \<and> references (env (snd (CompileCache parse_nonempty ''return 1;'' True
            (snd (CompileCache parse_nonempty ''return 1;'' True emptyEngine))))) 0 = 2
   \<and> compileLog (env (snd (CompileCache parse_nonempty ''return 1;'' True
            (snd (CompileCache parse_nonempty ''return 1;'' True emptyEngine))))) = [''return 1;'']"
proof -
  have first: "CompileCache parse_nonempty ''return 1;'' True emptyEngine
      = (Some 0, snd (CompileCache parse_nonempty ''return 1;'' True emptyEngine))"
    by (simp add: CompileCache_def Compile_def parse_nonempty_def emptyEngine_def emptyEnv_def)
  have refs: "references (env (snd (CompileCache parse_nonempty ''return 1;'' True emptyEngine))) 0 = 1"
    by (simp add: CompileCache_def Compile_def parse_nonempty_def emptyEngine_def emptyEnv_def)
  have log: "compileLog (env (snd (CompileCache parse_nonempty ''return 1;'' True emptyEngine)))
      = [''return 1;'']"
    by (simp add: CompileCache_def Compile_def parse_nonempty_def emptyEngine_def emptyEnv_def)
  from CompileCache_second_call_hits [OF first] first refs log show ?thesis
    by simp
qed

text \<open>
  The case the theorem leaves out: a malformed source yields no unit and no cache entry,
  and its error becomes the last script error, so a later call compiles it again.
\<close>

lemma CompileCache_malformed_not_cached:
  assumes "parse code = Some msg" and "cachedScripts s code = None"
  shows "fst (CompileCache parse code True s) = None
     \<and> cachedScripts (snd (CompileCache parse code True s)) = cachedScripts s
     \<and> scriptError (env (snd (CompileCache parse code True s))) = msg
     \<and> compileLog (env (snd (CompileCache parse code True s))) = compileLog (env s) @ [code]"
  using assms
  by (simp add: CompileCache_def Compile_def)

subsection \<open>The callback registry\<close>

text \<open>
  Claim C2. \<open>removeCallBack n\<close> leaves no entry for \<open>n\<close>, puts the unit that was registered
  into the pending-deletion set and touches nothing of the script environment, so the unit
  is not released. \<open>setCallBack n f\<close> is that removal followed by the insertion of \<open>f\<close>:
  afterwards \<open>getCallBack n\<close> returns \<open>f\<close>, \<open>f\<close> is the only unit registered for \<open>n\<close>, and
  every other name keeps its entry.
\<close>

theorem setCallBack_single_slot:
  "callbacks (removeCallBack n s) n = None
   \<and> deletedFunctions (removeCallBack n s) =
       (case callbacks s n of
          None \<Rightarrow> deletedFunctions s
        | Some g \<Rightarrow> insert g (deletedFunctions s))
   \<and> env (removeCallBack n s) = env s
   \<and> setCallBack n f s =
       (removeCallBack n s)\<lparr>callbacks := (callbacks (removeCallBack n s))(n \<mapsto> f)\<rparr>
   \<and> getCallBack n (setCallBack n f s) = f
   \<and> {g. callbacks (setCallBack n f s) n = Some g} = {f}
   \<and> callbacks (setCallBack n f s) = (callbacks s)(n \<mapsto> f)
   \<and> deletedFunctions (setCallBack n f s) = deletedFunctions (removeCallBack n s)
   \<and> env (setCallBack n f s) = env s"
  by (auto simp add: setCallBack_def removeCallBack_def getCallBack_def Let_def
      split: option.split)

text \<open>
  Claim C9. When \<open>f\<close> is already the unit registered for \<open>n\<close>, \<open>setCallBack n f\<close> leaves
  \<open>f\<close> registered for \<open>n\<close>, returned by \<open>getCallBack n\<close>, and a member of the
  pending-deletion set at the same time.
\<close>

theorem setCallBack_same_unit_live_and_pending:
  assumes "callbacks s n = Some f"
  shows "getCallBack n (setCallBack n f s) = f
     \<and> callbacks (setCallBack n f s) n = Some f
     \<and> f \<in> deletedFunctions (setCallBack n f s)"
  using assms
  by (simp add: setCallBack_def removeCallBack_def getCallBack_def Let_def)

text \<open>Registering the unit at address 7 for \<open>onCreated\<close> twice in a row.\<close>

theorem setCallBack_same_unit_live_and_pending_witness:
  "callbacks (setCallBack ''onCreated'' (Some 7) emptyEngine) ''onCreated'' = Some (Some 7)
   \<and> getCallBack ''onCreated''
        (setCallBack ''onCreated'' (Some 7) (setCallBack ''onCreated'' (Some 7) emptyEngine))
       = Some 7
   \<and> Some 7 \<in> deletedFunctions
        (setCallBack ''onCreated'' (Some 7) (setCallBack ''onCreated'' (Some 7) emptyEngine))"
proof -
  have registered:
    "callbacks (setCallBack ''onCreated'' (Some 7) emptyEngine) ''onCreated'' = Some (Some 7)"
    by (simp add: setCallBack_def removeCallBack_def emptyEngine_def)
  from setCallBack_same_unit_live_and_pending [OF registered] registered show ?thesis
    by simp
qed

subsection \<open>Actions and unregistered callbacks\<close>

text \<open>
  Claim C10. With an empty argument pack \<^verbatim>\<open>Argc\<close> is 0 and \<open>CreateAction\<close> ends in its
  assertion, for every event name and every engine; the assertion fails for no other pack.
\<close>

theorem CreateAction_empty_pack_assertion:
  "CreateAction action [] s = Inl AssertionFailed
   \<and> (CreateAction action An s = Inl AssertionFailed) = (An = [])"
  by (simp add: CreateAction_def split: option.split)

text \<open>
  With a handler registered, the call is made on the engine with the bracket open at the
  time of the call, its answer is returned, and the bracket is idle afterwards, whether
  the call succeeded or failed.
\<close>

lemma ExecuteNpc_registered:
  assumes "getCallBack n s = Some f"
  shows "fst (ExecuteNpc invoke n now npc s)
       = fst (invoke f npc (s\<lparr>scriptStartTime := now, scriptIsRunning := True\<rparr>))
     \<and> scriptIsRunning (snd (ExecuteNpc invoke n now npc s)) = False"
  using assms
  by (simp add: ExecuteNpc_def StartScriptExecution_def StopScriptExecution_def Let_def
      case_prod_beta)

lemma ExecuteWeapon_registered:
  assumes "getCallBack n s = Some f"
  shows "fst (ExecuteWeapon invoke n now weapon s)
       = fst (invoke f weapon (s\<lparr>scriptStartTime := now, scriptIsRunning := True\<rparr>))
     \<and> scriptIsRunning (snd (ExecuteWeapon invoke n now weapon s)) = False"
  using assms
  by (simp add: ExecuteWeapon_def StartScriptExecution_def StopScriptExecution_def Let_def
      case_prod_beta)



subsection \<open>The execution bracket\<close>

text \<open>
  Claim C6. \<open>StopScriptExecution\<close> returns whether a script was running when it was called
  and leaves the bracket idle in either case; it has no input that says how the call went,
  and changes nothing else.
\<close>

theorem StopScriptExecution_idle:
  "fst (StopScriptExecution s) = scriptIsRunning s
   \<and> scriptIsRunning (snd (StopScriptExecution s)) = False
   \<and> StopScriptExecution s = (scriptIsRunning s, s\<lparr>scriptIsRunning := False\<rparr>)"
  by (cases "scriptIsRunning s") (simp_all add: StopScriptExecution_def)

subsection \<open>The periodic registries\<close>

text \<open>
  Claim C8. Registering an entity that is already a member leaves the engine, and so the
  registry, as it was, and so does unregistering an entity that is not a member, in each
  of the three registries.
\<close>

theorem registration_idempotent:
  "(E \<in> updateNpcsTimer s \<longrightarrow> RegisterNpcTimer E s = s)
   \<and> (E \<in> updateNpcs s \<longrightarrow> RegisterNpcUpdate E s = s)
   \<and> (E \<in> updateWeapons s \<longrightarrow> RegisterWeaponUpdate E s = s)
   \<and> (E \<notin> updateNpcsTimer s \<longrightarrow> UnregisterNpcTimer E s = s)
   \<and> (E \<notin> updateNpcs s \<longrightarrow> UnregisterNpcUpdate E s = s)
   \<and> (E \<notin> updateWeapons s \<longrightarrow> UnregisterWeaponUpdate E s = s)"
  by (simp add: RegisterNpcTimer_def RegisterNpcUpdate_def RegisterWeaponUpdate_def
      UnregisterNpcTimer_def UnregisterNpcUpdate_def UnregisterWeaponUpdate_def insert_absorb)

text \<open>Entity 3 is a member of each registry of \<open>engine3\<close>, entity 4 of none.\<close>

theorem registration_idempotent_witness:
  "3 \<in> updateNpcsTimer engine3 \<and> 3 \<in> updateNpcs engine3 \<and> 3 \<in> updateWeapons engine3
   \<and> 4 \<notin> updateNpcsTimer engine3 \<and> 4 \<notin> updateNpcs engine3 \<and> 4 \<notin> updateWeapons engine3
   \<and> RegisterNpcTimer 3 engine3 = engine3
   \<and> RegisterNpcUpdate 3 engine3 = engine3
   \<and> RegisterWeaponUpdate 3 engine3 = engine3
   \<and> UnregisterNpcTimer 4 engine3 = engine3
   \<and> UnregisterNpcUpdate 4 engine3 = engine3
   \<and> UnregisterWeaponUpdate 4 engine3 = engine3"
proof -
  have member:
    "3 \<in> updateNpcsTimer engine3 \<and> 3 \<in> updateNpcs engine3 \<and> 3 \<in> updateWeapons engine3"
    by (simp add: engine3_def RegisterNpcTimer_def RegisterNpcUpdate_def
        RegisterWeaponUpdate_def)
  have absent:
    "4 \<notin> updateNpcsTimer engine3 \<and> 4 \<notin> updateNpcs engine3 \<and> 4 \<notin> updateWeapons engine3"
    by (simp add: engine3_def RegisterNpcTimer_def RegisterNpcUpdate_def
        RegisterWeaponUpdate_def emptyEngine_def)
  from registration_idempotent [of 3 engine3] registration_idempotent [of 4 engine3]
    member absent
  show ?thesis
    by simp
qed

lemma set_sorted_list_of_set_subset: "set (sorted_list_of_set A) \<subseteq> (A :: nat set)"
  by (cases "finite A") simp_all

lemma fst_run_calls: "fst (run_calls exec timedCall cs s) = cs"
  by (induction cs arbitrary: s) (simp_all add: case_prod_beta)

lemma RunScripts_calls_members:
  "set (fst (RunScripts exec timedCall s)) \<subseteq>
     TimerCall ` updateNpcsTimer s \<union> UpdateCall ` updateNpcs s \<union> WeaponCall ` updateWeapons s"
  using set_sorted_list_of_set_subset [of "updateNpcsTimer s"]
    set_sorted_list_of_set_subset [of "updateNpcs s"]
    set_sorted_list_of_set_subset [of "updateWeapons s"]
  by (auto simp add: RunScripts_def fst_run_calls)

text \<open>
  The pass does call the members: with entities 3 and 4 in the timer registry and 3 in the
  other two, it makes four calls; once 3 has left the timer registry, only its timer call
  is missing.
\<close>

lemma RunScripts_calls_every_member:
  "fst (RunScripts exec timedCall (RegisterNpcTimer 4 engine3))
     = [TimerCall 3, TimerCall 4, UpdateCall 3, WeaponCall 3]"
  unfolding RunScripts_def Let_def fst_run_calls
  by (simp add: engine3_def RegisterNpcTimer_def RegisterNpcUpdate_def
      RegisterWeaponUpdate_def emptyEngine_def)

lemma RunScripts_after_unregister:
  "fst (RunScripts exec timedCall (UnregisterNpcTimer 3 (RegisterNpcTimer 4 engine3)))
     = [TimerCall 4, UpdateCall 3, WeaponCall 3]"
  unfolding RunScripts_def Let_def fst_run_calls
  by (simp add: engine3_def RegisterNpcTimer_def UnregisterNpcTimer_def RegisterNpcUpdate_def
      RegisterWeaponUpdate_def emptyEngine_def insert_Diff_if)

text \<open>
  Claim C7. After an entity has been registered in a periodic registry and unregistered
  again, the next \<open>RunScripts\<close> pass makes no call of that registry for the entity,
  whatever the handlers of the pass do and whatever \<open>timedCall\<close> is.
\<close>

theorem unregistered_entity_not_invoked:
  "TimerCall E \<notin> set (fst (RunScripts exec timedCall
       (UnregisterNpcTimer E (RegisterNpcTimer E s))))
   \<and> UpdateCall E \<notin> set (fst (RunScripts exec timedCall
       (UnregisterNpcUpdate E (RegisterNpcUpdate E s))))
   \<and> WeaponCall E \<notin> set (fst (RunScripts exec timedCall
       (UnregisterWeaponUpdate E (RegisterWeaponUpdate E s))))"
proof -
  have timer: "E \<notin> updateNpcsTimer (UnregisterNpcTimer E (RegisterNpcTimer E s))"
    by (simp add: UnregisterNpcTimer_def RegisterNpcTimer_def)
  have update: "E \<notin> updateNpcs (UnregisterNpcUpdate E (RegisterNpcUpdate E s))"
    by (simp add: UnregisterNpcUpdate_def RegisterNpcUpdate_def)
  have weapon: "E \<notin> updateWeapons (UnregisterWeaponUpdate E (RegisterWeaponUpdate E s))"
    by (simp add: UnregisterWeaponUpdate_def RegisterWeaponUpdate_def)
  from timer update weapon RunScripts_calls_members show ?thesis
    by blast
qed

subsection \<open>Wrapping\<close>

text \<open>
  Claim C3, amended. For every user code \<open>c\<close>, \<open>WrapScript\<close> returns prologue, \<open>c\<close>,
  epilogue, and the epilogue closes the wrapping function. For an NPC the prologue
  declares the nine NPC handler names, binds \<open>self\<close> and assigns each handler onto the
  entity only if it is defined. For a weapon it declares the two weapon handler names,
  binds \<open>self\<close> and assigns each handler onto the entity unconditionally. For a player it
  declares no handler and only binds \<open>self\<close>.
\<close>

theorem WrapScript_prologue_by_kind:
  "WrapScript TNPC c =
     conditional_prologue (entity_param TNPC) (handler_names TNPC) @ c @ close_function
   \<and> WrapScript TWeapon c =
     unconditional_prologue (entity_param TWeapon) (handler_names TWeapon) @ c @ close_function
   \<and> WrapScript TPlayer c =
     open_function (entity_param TPlayer) @ bind_self (entity_param TPlayer) @ ''\<newline>'' @ c
       @ close_function"
  by (simp add: prefixString_TNPC_def prefixString_TWeapon_def prefixString_TPlayer_def
      conditional_prologue_def unconditional_prologue_def open_function_def
      declare_handlers_def bind_self_def assign_if_defined_def assign_always_def
      close_function_def)

text \<open>
  The claim as it is written fails for a weapon: the wrapped text of \<open>return 1;\<close> is not
  the one whose prologue assigns each weapon handler only if it is defined.
\<close>

theorem WrapScript_TWeapon_not_conditional:
  "WrapScript TWeapon ''return 1;'' \<noteq>
     conditional_prologue (entity_param TWeapon) (handler_names TWeapon) @ ''return 1;''
       @ close_function"
  by (simp add: prefixString_TWeapon_def conditional_prologue_def open_function_def
      declare_handlers_def bind_self_def assign_if_defined_def close_function_def)

end
